theory Spec2Isabelle
  imports Complex_Main
begin

section \<open>Parameters of the problem\<close>

text \<open>
  The module-level constants of \<^verbatim>\<open>examples/hertz.py\<close> (lines 26-38). The script
  computes with Python floats; the model computes with real numbers, so the
  formulas are exact and rounding is not represented. A constant written as a
  decimal is read as that decimal.
\<close>

record params =
  E :: real
  nu :: real
  elements_degree :: int
  applied_force :: real

definition hertz_params :: params where
  "hertz_params =
     \<lparr>E = 200000, nu = 3 / 10, elements_degree = 2, applied_force = 200 * 100\<rparr>"

definition clambda :: "params \<Rightarrow> real" where
  "clambda p = E p * nu p / ((1 + nu p) * (1 - 2 * nu p))"

definition cmu :: "params \<Rightarrow> real" where
  "cmu p = E p / (2 * (1 + nu p))"

definition clambdastar :: "params \<Rightarrow> real" where
  "clambdastar p = 2 * clambda p * cmu p / (clambda p + 2 * cmu p)"

definition gamma0 :: "params \<Rightarrow> real" where
  "gamma0 p = 1 / E p"


section \<open>Vectors of the plane\<close>

type_synonym vec = "real \<times> real"

definition vadd :: "vec \<Rightarrow> vec \<Rightarrow> vec" where
  "vadd a b = (fst a + fst b, snd a + snd b)"

definition vsub :: "vec \<Rightarrow> vec \<Rightarrow> vec" where
  "vsub a b = (fst a - fst b, snd a - snd b)"

definition dot :: "vec \<Rightarrow> vec \<Rightarrow> real" where
  "dot a b = fst a * fst b + snd a * snd b"

definition vnorm :: "vec \<Rightarrow> real" where
  "vnorm a = sqrt (dot a a)"


section \<open>Splitting the imported mesh (lines 50-73)\<close>

text \<open>
  A boundary face of a mesh: the convex it belongs to, its number in that
  convex, and its outward normal.
\<close>

record face =
  face_cv :: nat
  face_f :: nat
  normal :: vec

text \<open>
  A mesh object: the coordinates of its points (the id of a point is its
  index), its convexes (an id and the ids of the vertices) and its regions.
\<close>

record mesh =
  pts :: "vec list"
  convexes :: "(nat \<times> nat list) list"
  regions :: "nat \<rightharpoonup> face list"

definition nbpts :: "mesh \<Rightarrow> nat" where
  "nbpts m = length (pts m)"

definition translate :: "vec \<Rightarrow> mesh \<Rightarrow> mesh" where
  "translate v m = m\<lparr>pts := map (\<lambda>q. vadd q v) (pts m)\<rparr>"

definition clone :: "mesh \<Rightarrow> mesh" where
  "clone m = m"

text \<open>
  \<^verbatim>\<open>cvid_from_pid\<close> is a method of the finite element library, called with its
  default \<^verbatim>\<open>share=False\<close>: the ids of the convexes whose vertices are all among
  the given point ids. \<^verbatim>\<open>del_convex\<close> removes the convexes of the given ids.
\<close>

definition cvid_from_pid :: "mesh \<Rightarrow> nat list \<Rightarrow> nat list" where
  "cvid_from_pid m pids =
     map fst (filter (\<lambda>cv. list_all (\<lambda>q. q \<in> set pids) (snd cv)) (convexes m))"

definition del_convex :: "nat list \<Rightarrow> mesh \<Rightarrow> mesh" where
  "del_convex cvids m =
     m\<lparr>convexes := filter (\<lambda>cv. fst cv \<notin> set cvids) (convexes m)\<rparr>"

text \<open>\<^verbatim>\<open>np.compress\<close>: the entries of \<open>xs\<close> at the positions where \<open>c\<close> holds.\<close>

definition compress :: "bool list \<Rightarrow> 'a list \<Rightarrow> 'a list" where
  "compress c xs = map snd (filter fst (zip c xs))"

text \<open>\<^verbatim>\<open>P[1, :]\<close>: the row of the second coordinates.\<close>

definition row1 :: "vec list \<Rightarrow> real list" where
  "row1 P = map snd P"

definition cvid1 :: "mesh \<Rightarrow> nat list" where
  "cvid1 mesh =
     (let P = pts mesh;
          c1 = map (\<lambda>y. y \<ge> 0) (row1 P);
          pid1 = compress c1 [0 ..< nbpts mesh]
      in cvid_from_pid mesh pid1)"

definition cvid2 :: "mesh \<Rightarrow> nat list" where
  "cvid2 mesh =
     (let P = pts mesh;
          c2 = map (\<lambda>y. y \<le> 0) (row1 P);
          pid2 = compress c2 [0 ..< nbpts mesh]
      in cvid_from_pid mesh pid2)"

definition mesh1 :: "mesh \<Rightarrow> mesh" where
  "mesh1 imported =
     (let mesh = translate (0, 5) imported in del_convex (cvid2 mesh) (clone mesh))"

definition mesh2 :: "mesh \<Rightarrow> mesh" where
  "mesh2 imported =
     (let mesh = translate (0, 5) imported in del_convex (cvid1 mesh) (clone mesh))"


section \<open>Boundary selection (lines 100-124)\<close>

definition angle_between :: "vec \<Rightarrow> vec \<Rightarrow> real" where
  "angle_between a b = arccos (dot a b / (vnorm a * vnorm b))"

text \<open>
  Modelled from the spec: \<^verbatim>\<open>outer_faces_with_direction\<close> is a method of the finite
  element library whose body is not part of the repository. Of the boundary
  faces of the mesh it keeps those whose outward normal makes an angle less or
  equal to the tolerance with the given vector (section 4.1 of the
  specification, and the note at line 129 of the script). The boundary faces
  with their normals are the mesh provider's and are an argument.
\<close>

definition outer_faces_with_direction :: "face list \<Rightarrow> vec \<Rightarrow> real \<Rightarrow> face list" where
  "outer_faces_with_direction faces v angle =
     filter (\<lambda>f. angle_between (normal f) v \<le> angle) faces"

text \<open>
  \<^verbatim>\<open>np.pi\<close> is not the number \<open>pi\<close> but the double precision number nearest to
  it, the rational below, which is smaller than \<open>pi\<close>. Halving a double is
  exact, so the tolerance \<^verbatim>\<open>np.pi / 2.0\<close> of lines 101, 106 and 108 is
  \<open>np_pi / 2\<close>.
\<close>

definition np_pi :: real where
  "np_pi = 884279719003555 / 281474976710656"

definition fb2 :: "face list \<Rightarrow> face list" where
  "fb2 faces1 = outer_faces_with_direction faces1 (0, - 1) (np_pi / 2)"

definition fb3 :: "face list \<Rightarrow> face list" where
  "fb3 faces2 = outer_faces_with_direction faces2 (0, - 1) (1 / 100)"

definition fb4 :: "face list \<Rightarrow> face list" where
  "fb4 faces1 = outer_faces_with_direction faces1 (0, 1) (np_pi / 2)"

definition fb5 :: "face list \<Rightarrow> face list" where
  "fb5 faces2 = outer_faces_with_direction faces2 (0, 1) (np_pi / 2)"

definition fb6 :: "face list \<Rightarrow> face list" where
  "fb6 faces1 = outer_faces_with_direction faces1 (- 1, 0) (1 / 100)"

definition fb7 :: "face list \<Rightarrow> face list" where
  "fb7 faces2 = outer_faces_with_direction faces2 (- 1, 0) (1 / 100)"

definition HOLE_BOUND :: nat where "HOLE_BOUND = 1"
definition CONTACT_BOUND :: nat where "CONTACT_BOUND = 2"
definition BOTTOM_BOUND :: nat where "BOTTOM_BOUND = 3"
definition TOP_BOUND :: nat where "TOP_BOUND = 4"
definition LEFT_BOUND :: nat where "LEFT_BOUND = 5"

definition set_region :: "nat \<Rightarrow> face list \<Rightarrow> mesh \<Rightarrow> mesh" where
  "set_region r fs m = m\<lparr>regions := (regions m)(r \<mapsto> fs)\<rparr>"

text \<open>
  The wheel and the foundation with their regions; \<open>outer\<close> gives the boundary
  faces of a mesh.
\<close>

definition wheel :: "(mesh \<Rightarrow> face list) \<Rightarrow> mesh \<Rightarrow> mesh" where
  "wheel outer imported =
     (let m = mesh1 imported; faces1 = outer m
      in set_region LEFT_BOUND (fb6 faces1)
           (set_region TOP_BOUND (fb4 faces1)
             (set_region CONTACT_BOUND (fb2 faces1) m)))"

definition foundation :: "(mesh \<Rightarrow> face list) \<Rightarrow> mesh \<Rightarrow> mesh" where
  "foundation outer imported =
     (let m = mesh2 imported; faces2 = outer m
      in set_region LEFT_BOUND (fb7 faces2)
           (set_region CONTACT_BOUND (fb5 faces2)
             (set_region BOTTOM_BOUND (fb3 faces2) m)))"


section \<open>Finite element and integration methods (lines 137-154)\<close>

datatype mesh_id = Mesh1 | Mesh2

datatype fem = No_fem | Classical_fem int | Classical_discontinuous_fem int

record mesh_fem =
  mf_mesh :: mesh_id
  mf_qdim :: nat
  mf_fem :: fem

record mesh_im =
  im_mesh :: mesh_id
  im_degree :: int

definition MeshFem :: "mesh_id \<Rightarrow> nat \<Rightarrow> mesh_fem" where
  "MeshFem m q = \<lparr>mf_mesh = m, mf_qdim = q, mf_fem = No_fem\<rparr>"

definition set_classical_fem :: "int \<Rightarrow> mesh_fem \<Rightarrow> mesh_fem" where
  "set_classical_fem k mf = mf\<lparr>mf_fem := Classical_fem k\<rparr>"

definition set_classical_discontinuous_fem :: "int \<Rightarrow> mesh_fem \<Rightarrow> mesh_fem" where
  "set_classical_discontinuous_fem k mf = mf\<lparr>mf_fem := Classical_discontinuous_fem k\<rparr>"

definition MeshIm :: "mesh_id \<Rightarrow> int \<Rightarrow> mesh_im" where
  "MeshIm m d = \<lparr>im_mesh = m, im_degree = d\<rparr>"

definition mfu1 :: "params \<Rightarrow> mesh_fem" where
  "mfu1 p = set_classical_fem (elements_degree p) (MeshFem Mesh1 2)"

definition mfd1 :: "params \<Rightarrow> mesh_fem" where
  "mfd1 p = set_classical_fem (elements_degree p) (MeshFem Mesh1 1)"

definition mflambda :: "params \<Rightarrow> mesh_fem" where
  "mflambda p = set_classical_fem (elements_degree p - 1) (MeshFem Mesh1 2)"

definition mflambda_C :: "params \<Rightarrow> mesh_fem" where
  "mflambda_C p = set_classical_fem (elements_degree p - 1) (MeshFem Mesh1 1)"

definition mfu2 :: "params \<Rightarrow> mesh_fem" where
  "mfu2 p = set_classical_fem (elements_degree p) (MeshFem Mesh2 2)"

definition mfd2 :: "params \<Rightarrow> mesh_fem" where
  "mfd2 p = set_classical_fem (elements_degree p) (MeshFem Mesh2 1)"

definition mfvm1 :: "params \<Rightarrow> mesh_fem" where
  "mfvm1 p = set_classical_discontinuous_fem (elements_degree p) (MeshFem Mesh1 1)"

definition mfvm2 :: "params \<Rightarrow> mesh_fem" where
  "mfvm2 p = set_classical_discontinuous_fem (elements_degree p) (MeshFem Mesh2 1)"

definition mim1 :: "params \<Rightarrow> mesh_im" where
  "mim1 p = MeshIm Mesh1 ((elements_degree p)\<^sup>2)"

definition mim2 :: "params \<Rightarrow> mesh_im" where
  "mim2 p = MeshIm Mesh2 ((elements_degree p)\<^sup>2)"


section \<open>The model (lines 166-257)\<close>

text \<open>
  The model object records what the script declares: the variables, the data,
  the interpolate transformations and the bricks, each in the order of the
  calls. Expressions of the weak form language are kept as the script writes
  them.

  A variable is declared by the script under a name, or added by the library
  for a brick under a name of the library's choice; the latter is identified
  by the index of its brick.
\<close>

datatype var_name = Named string | Multiplier_of nat

text \<open>
  A variable on a finite element method, a variable on a finite element method
  filtered on a region, or the multiplier of a variable (given by its name) on
  a finite element method and a region.
\<close>

datatype variable =
    Fem_variable mesh_fem
  | Filtered_fem_variable mesh_fem nat
  | Multiplier mesh_fem string nat

datatype data_value = Vector "real list" | Matrix "real list list"

datatype brick =
    Isotropic_linearized_elasticity mesh_im string string string
  | Generalized_Dirichlet_with_multipliers mesh_im string mesh_fem nat string string
  | Nonlinear_term mesh_im string nat

record model =
  variables :: "(var_name \<times> variable) list"
  initialized_data :: "(string \<times> data_value) list"
  transformations :: "(string \<times> mesh_id \<times> mesh_id \<times> string) list"
  bricks :: "brick list"

definition Model_real :: model where
  "Model_real = \<lparr>variables = [], initialized_data = [], transformations = [], bricks = []\<rparr>"

definition add_fem_variable :: "string \<Rightarrow> mesh_fem \<Rightarrow> model \<Rightarrow> model" where
  "add_fem_variable name mf md =
     md\<lparr>variables := variables md @ [(Named name, Fem_variable mf)]\<rparr>"

definition add_filtered_fem_variable :: "string \<Rightarrow> mesh_fem \<Rightarrow> nat \<Rightarrow> model \<Rightarrow> model" where
  "add_filtered_fem_variable name mf region md =
     md\<lparr>variables := variables md @ [(Named name, Filtered_fem_variable mf region)]\<rparr>"

definition add_initialized_data :: "string \<Rightarrow> data_value \<Rightarrow> model \<Rightarrow> model" where
  "add_initialized_data name v md =
     md\<lparr>initialized_data := initialized_data md @ [(name, v)]\<rparr>"

definition add_isotropic_linearized_elasticity_brick ::
  "mesh_im \<Rightarrow> string \<Rightarrow> string \<Rightarrow> string \<Rightarrow> model \<Rightarrow> model" where
  "add_isotropic_linearized_elasticity_brick mim varname lambda_name mu_name md =
     md\<lparr>bricks := bricks md @ [Isotropic_linearized_elasticity mim varname lambda_name mu_name]\<rparr>"

text \<open>
  \<^verbatim>\<open>add_generalized_Dirichlet_condition_with_multipliers\<close> is a method of the
  finite element library. Called as at lines 197-208, with a finite element
  method as the description of the multiplier, it prescribes the condition
  with a multiplier (line 185): it adds to the model the multiplier of the
  variable on that method and on the region of the condition, and then the
  brick of the condition. The brick gets the next index.
\<close>

definition add_generalized_Dirichlet_condition_with_multipliers ::
  "mesh_im \<Rightarrow> string \<Rightarrow> mesh_fem \<Rightarrow> nat \<Rightarrow> string \<Rightarrow> string \<Rightarrow> model \<Rightarrow> model" where
  "add_generalized_Dirichlet_condition_with_multipliers mim varname mf region rname Hname md =
     md\<lparr>variables := variables md
          @ [(Multiplier_of (length (bricks md)), Multiplier mf varname region)],
        bricks := bricks md
          @ [Generalized_Dirichlet_with_multipliers mim varname mf region rname Hname]\<rparr>"

definition add_interpolate_transformation_from_expression ::
  "string \<Rightarrow> mesh_id \<Rightarrow> mesh_id \<Rightarrow> string \<Rightarrow> model \<Rightarrow> model" where
  "add_interpolate_transformation_from_expression name src tgt expr md =
     md\<lparr>transformations := transformations md @ [(name, src, tgt, expr)]\<rparr>"

definition add_nonlinear_term :: "mesh_im \<Rightarrow> string \<Rightarrow> nat \<Rightarrow> model \<Rightarrow> model" where
  "add_nonlinear_term mim expr region md =
     md\<lparr>bricks := bricks md @ [Nonlinear_term mim expr region]\<rparr>"

text \<open>The calls of the script on the model, applied in order from the empty model.\<close>

definition md :: "params \<Rightarrow> model" where
  "md p = fold (\<lambda>call m. call m)
     [add_fem_variable ''u1'' (mfu1 p),
      add_fem_variable ''u2'' (mfu2 p),
      add_initialized_data ''cmu'' (Vector [cmu p]),
      add_initialized_data ''clambdastar'' (Vector [clambdastar p]),
      add_isotropic_linearized_elasticity_brick (mim1 p) ''u1'' ''clambdastar'' ''cmu'',
      add_isotropic_linearized_elasticity_brick (mim2 p) ''u2'' ''clambdastar'' ''cmu'',
      add_initialized_data ''r0'' (Vector [0, - (1 / 10)]),
      add_initialized_data ''r1'' (Vector [0, 0]),
      add_initialized_data ''r2'' (Vector [0, 0]),
      add_initialized_data ''r3'' (Vector [0, 0]),
      add_initialized_data ''H0'' (Matrix [[0, 0], [0, 1]]),
      add_initialized_data ''H1'' (Matrix [[1, 0], [0, 0]]),
      add_initialized_data ''H2'' (Matrix [[1, 0], [0, 0]]),
      add_initialized_data ''H3'' (Matrix [[0, 0], [0, 1]]),
      add_generalized_Dirichlet_condition_with_multipliers
        (mim1 p) ''u1'' (mfu1 p) TOP_BOUND ''r0'' ''H0'',
      add_generalized_Dirichlet_condition_with_multipliers
        (mim1 p) ''u1'' (mfu1 p) LEFT_BOUND ''r1'' ''H1'',
      add_generalized_Dirichlet_condition_with_multipliers
        (mim2 p) ''u2'' (mfu2 p) LEFT_BOUND ''r2'' ''H2'',
      add_generalized_Dirichlet_condition_with_multipliers
        (mim2 p) ''u2'' (mfu2 p) BOTTOM_BOUND ''r3'' ''H3'',
      add_interpolate_transformation_from_expression ''Proj1'' Mesh1 Mesh2 ''[X(1);-X(2)]'',
      add_initialized_data ''gamma0'' (Vector [gamma0 p]),
      add_filtered_fem_variable ''lambda1'' (mflambda_C p) CONTACT_BOUND,
      add_nonlinear_term (mim1 p)
        ''lambda1*(Test_u1.[0;1])-lambda1*(Interpolate(Test_u2,Proj1).[0;1])''
        CONTACT_BOUND,
      add_nonlinear_term (mim1 p)
        ''-(gamma0*element_size)*(lambda1 + neg_part(lambda1+(1/(gamma0*element_size))*((u1-Interpolate(u2,Proj1)+X-Interpolate(X,Proj1)).[0;1])))*Test_lambda1''
        CONTACT_BOUND]
     Model_real"


section \<open>Solve and export (lines 276-295)\<close>

record solve_options =
  max_res :: real
  max_iter :: nat
  noisy :: bool

definition solve_call :: solve_options where
  "solve_call = \<lparr>max_res = 1 / 10 ^ 9, max_iter = 100, noisy = True\<rparr>"

datatype post_processing =
  Isotropic_linearized_Von_Mises_or_Tresca string string string mesh_fem

definition VM1 :: "params \<Rightarrow> post_processing" where
  "VM1 p = Isotropic_linearized_Von_Mises_or_Tresca ''u1'' ''clambdastar'' ''cmu'' (mfvm1 p)"

definition VM2 :: "params \<Rightarrow> post_processing" where
  "VM2 p = Isotropic_linearized_Von_Mises_or_Tresca ''u2'' ''clambdastar'' ''cmu'' (mfvm2 p)"

text \<open>
  Everything the script hands to the finite element library for an imported
  mesh: the two meshes with their regions, the model, the options of the solve
  and the two stress computations.
\<close>

record program =
  prog_mesh1 :: mesh
  prog_mesh2 :: mesh
  prog_md :: model
  prog_solve :: solve_options
  prog_post :: "post_processing list"

definition hertz :: "(mesh \<Rightarrow> face list) \<Rightarrow> params \<Rightarrow> mesh \<Rightarrow> program" where
  "hertz outer p imported =
     \<lparr>prog_mesh1 = wheel outer imported,
      prog_mesh2 = foundation outer imported,
      prog_md = md p,
      prog_solve = solve_call,
      prog_post = [VM1 p, VM2 p]\<rparr>"


section \<open>The weak form language (lines 231-257)\<close>

text \<open>
  The transformation of line 231 and the contact terms of lines 256 and 257
  are handed to the model as expressions of the weak form language of the
  library. They are read here as the library documents the language and as
  the script spells the terms out (lines 243-250): names, integers, the
  operators \<^verbatim>\<open>+ - * /\<close> and \<^verbatim>\<open>.\<close> (the scalar product), the unary minus, the
  calls \<^verbatim>\<open>f(e)\<close> and \<^verbatim>\<open>f(e,e)\<close> and the vectors \<^verbatim>\<open>[e;e]\<close>, where \<^verbatim>\<open>* / .\<close> bind
  tighter than \<^verbatim>\<open>+ -\<close> and the operators of one level associate to the left.
\<close>

subsection \<open>Reading an expression\<close>

datatype token = T_num nat | T_id string | T_sym char

definition is_digit :: "char \<Rightarrow> bool" where
  "is_digit c \<longleftrightarrow> c \<in> set ''0123456789''"

definition is_letter :: "char \<Rightarrow> bool" where
  "is_letter c \<longleftrightarrow> c \<in> set ''abcdefghijklmnopqrstuvwxyzABCDEFGHIJKLMNOPQRSTUVWXYZ_''"

definition digit_value :: "char \<Rightarrow> nat" where
  "digit_value c = of_char c - 48"

definition word_token :: "string \<Rightarrow> token" where
  "word_token w =
     (if list_all is_digit w then T_num (foldl (\<lambda>n c. 10 * n + digit_value c) 0 w)
      else T_id w)"

definition flush :: "string \<Rightarrow> token list" where
  "flush w = (if w = [] then [] else [word_token (rev w)])"

text \<open>
  The tokens of a string; \<open>w\<close> holds, in reverse, the letters and digits of the
  word being read. Spaces separate tokens and are dropped.
\<close>

fun lex :: "string \<Rightarrow> string \<Rightarrow> token list" where
  "lex w [] = flush w"
| "lex w (c # cs) =
     (if is_letter c \<or> is_digit c then lex (c # w) cs
      else flush w @ (if c = CHR '' '' then [] else [T_sym c]) @ lex [] cs)"

datatype gwfl =
    Num nat
  | Var string
  | Call1 string gwfl
  | Call2 string gwfl gwfl
  | Vect2 gwfl gwfl
  | Neg gwfl
  | Add gwfl gwfl
  | Sub gwfl gwfl
  | Mul gwfl gwfl
  | Div gwfl gwfl
  | Dot gwfl gwfl

text \<open>
  A recursive descent over the tokens. The goal says what is to be read next:
  a sum, the rest of a sum whose left operand is known, a product, the rest of
  a product, an operand with its sign, or an operand. The first argument
  bounds the depth of the descent; every call uses one unit of it.
\<close>

datatype goal = Expr | Expr_rest gwfl | Term | Term_rest gwfl | Unary | Primary

primrec parse_goal :: "nat \<Rightarrow> goal \<Rightarrow> token list \<Rightarrow> (gwfl \<times> token list) option" where
  "parse_goal 0 g ts = None"
| "parse_goal (Suc n) g ts =
     (case g of
        Expr \<Rightarrow>
          (case parse_goal n Term ts of
             None \<Rightarrow> None
           | Some (a, r) \<Rightarrow> parse_goal n (Expr_rest a) r)
      | Expr_rest a \<Rightarrow>
          (case ts of
             T_sym c # r \<Rightarrow>
               if c = CHR ''+'' then
                 (case parse_goal n Term r of
                    None \<Rightarrow> None
                  | Some (b, r') \<Rightarrow> parse_goal n (Expr_rest (Add a b)) r')
               else if c = CHR ''-'' then
                 (case parse_goal n Term r of
                    None \<Rightarrow> None
                  | Some (b, r') \<Rightarrow> parse_goal n (Expr_rest (Sub a b)) r')
               else Some (a, ts)
           | _ \<Rightarrow> Some (a, ts))
      | Term \<Rightarrow>
          (case parse_goal n Unary ts of
             None \<Rightarrow> None
           | Some (a, r) \<Rightarrow> parse_goal n (Term_rest a) r)
      | Term_rest a \<Rightarrow>
          (case ts of
             T_sym c # r \<Rightarrow>
               if c = CHR ''*'' then
                 (case parse_goal n Unary r of
                    None \<Rightarrow> None
                  | Some (b, r') \<Rightarrow> parse_goal n (Term_rest (Mul a b)) r')
               else if c = CHR ''/'' then
                 (case parse_goal n Unary r of
                    None \<Rightarrow> None
                  | Some (b, r') \<Rightarrow> parse_goal n (Term_rest (Div a b)) r')
               else if c = CHR ''.'' then
                 (case parse_goal n Unary r of
                    None \<Rightarrow> None
                  | Some (b, r') \<Rightarrow> parse_goal n (Term_rest (Dot a b)) r')
               else Some (a, ts)
           | _ \<Rightarrow> Some (a, ts))
      | Unary \<Rightarrow>
          (case ts of
             T_sym c # r \<Rightarrow>
               if c = CHR ''-'' then
                 (case parse_goal n Unary r of
                    None \<Rightarrow> None
                  | Some (a, r') \<Rightarrow> Some (Neg a, r'))
               else parse_goal n Primary ts
           | _ \<Rightarrow> parse_goal n Primary ts)
      | Primary \<Rightarrow>
          (case ts of
             T_num k # r \<Rightarrow> Some (Num k, r)
           | T_id f # T_sym c # r \<Rightarrow>
               if c = CHR ''('' then
                 (case parse_goal n Expr r of
                    Some (a, T_sym d # r') \<Rightarrow>
                      if d = CHR '')'' then Some (Call1 f a, r')
                      else if d = CHR '','' then
                        (case parse_goal n Expr r' of
                           Some (b, T_sym e # r'') \<Rightarrow>
                             if e = CHR '')'' then Some (Call2 f a b, r'') else None
                         | _ \<Rightarrow> None)
                      else None
                  | _ \<Rightarrow> None)
               else Some (Var f, T_sym c # r)
           | T_id f # r \<Rightarrow> Some (Var f, r)
           | T_sym c # r \<Rightarrow>
               if c = CHR ''('' then
                 (case parse_goal n Expr r of
                    Some (a, T_sym d # r') \<Rightarrow> if d = CHR '')'' then Some (a, r') else None
                  | _ \<Rightarrow> None)
               else if c = CHR ''['' then
                 (case parse_goal n Expr r of
                    Some (a, T_sym d # r') \<Rightarrow>
                      if d = CHR '';'' then
                        (case parse_goal n Expr r' of
                           Some (b, T_sym e # r'') \<Rightarrow>
                             if e = CHR '']'' then Some (Vect2 a b, r'') else None
                         | _ \<Rightarrow> None)
                      else None
                  | _ \<Rightarrow> None)
               else None
           | _ \<Rightarrow> None))"

text \<open>
  The expression a string denotes, if it is one: all the tokens are to be
  used. The descent over \<open>k\<close> tokens is allowed the depth \<open>4 * k + 4\<close>, four
  levels for each nesting; a string whose descent is deeper denotes nothing.
\<close>

definition parse :: "string \<Rightarrow> gwfl option" where
  "parse s =
     (let ts = lex [] s
      in case parse_goal (4 * length ts + 4) Expr ts of
           Some (e, []) \<Rightarrow> Some e
         | _ \<Rightarrow> None)"


subsection \<open>The value of an expression at a point\<close>

text \<open>
  The quantities an expression reads at a point of the integration region: the
  current values of the unknowns and the test functions, by the name of the
  variable, and the size of the element holding the point. The unknowns change
  from one Newton iterate to the next; the model does not.
\<close>

record gwfl_env =
  unknown_scalar :: "string \<Rightarrow> vec \<Rightarrow> real"
  unknown_vector :: "string \<Rightarrow> vec \<Rightarrow> vec"
  test_scalar :: "string \<Rightarrow> vec \<Rightarrow> real"
  test_vector :: "string \<Rightarrow> vec \<Rightarrow> vec"
  element_size :: "vec \<Rightarrow> real"

datatype val = Scalar real | Vector2 vec

text \<open>The negative part, from the reals to the non-negative reals (line 250).\<close>

definition neg_part :: "real \<Rightarrow> real" where
  "neg_part t = (if t < 0 then - t else 0)"

fun neg_val :: "val \<Rightarrow> val" where
  "neg_val (Scalar a) = Scalar (- a)"
| "neg_val (Vector2 a) = Vector2 (- fst a, - snd a)"

fun add_val :: "val \<Rightarrow> val \<Rightarrow> val option" where
  "add_val (Scalar a) (Scalar b) = Some (Scalar (a + b))"
| "add_val (Vector2 a) (Vector2 b) = Some (Vector2 (vadd a b))"
| "add_val _ _ = None"

fun sub_val :: "val \<Rightarrow> val \<Rightarrow> val option" where
  "sub_val (Scalar a) (Scalar b) = Some (Scalar (a - b))"
| "sub_val (Vector2 a) (Vector2 b) = Some (Vector2 (vsub a b))"
| "sub_val _ _ = None"

fun mul_val :: "val \<Rightarrow> val \<Rightarrow> val option" where
  "mul_val (Scalar a) (Scalar b) = Some (Scalar (a * b))"
| "mul_val (Scalar a) (Vector2 b) = Some (Vector2 (a * fst b, a * snd b))"
| "mul_val (Vector2 a) (Scalar b) = Some (Vector2 (fst a * b, snd a * b))"
| "mul_val _ _ = None"

fun div_val :: "val \<Rightarrow> val \<Rightarrow> val option" where
  "div_val (Scalar a) (Scalar b) = Some (Scalar (a / b))"
| "div_val (Vector2 a) (Scalar b) = Some (Vector2 (fst a / b, snd a / b))"
| "div_val _ _ = None"

fun dot_val :: "val \<Rightarrow> val \<Rightarrow> val option" where
  "dot_val (Vector2 a) (Vector2 b) = Some (Scalar (dot a b))"
| "dot_val _ _ = None"

definition lift2 :: "(val \<Rightarrow> val \<Rightarrow> val option) \<Rightarrow> val option \<Rightarrow> val option \<Rightarrow> val option" where
  "lift2 f a b =
     (case a of
        None \<Rightarrow> None
      | Some x \<Rightarrow> (case b of None \<Rightarrow> None | Some y \<Rightarrow> f x y))"

text \<open>\<^verbatim>\<open>v(1)\<close> and \<^verbatim>\<open>v(2)\<close>: the components of a vector.\<close>

definition component :: "nat \<Rightarrow> val \<Rightarrow> val option" where
  "component i v =
     (case v of
        Vector2 a \<Rightarrow>
          if i = 1 then Some (Scalar (fst a))
          else if i = 2 then Some (Scalar (snd a))
          else None
      | Scalar a \<Rightarrow> None)"

definition variable_fem :: "variable \<Rightarrow> mesh_fem" where
  "variable_fem v =
     (case v of
        Fem_variable mf \<Rightarrow> mf
      | Filtered_fem_variable mf r \<Rightarrow> mf
      | Multiplier mf u r \<Rightarrow> mf)"

text \<open>A field of a variable at a point: a scalar or a vector, by the dimension of its method.\<close>

definition field_value :: "variable \<Rightarrow> (vec \<Rightarrow> real) \<Rightarrow> (vec \<Rightarrow> vec) \<Rightarrow> vec \<Rightarrow> val option" where
  "field_value v s w X =
     (if mf_qdim (variable_fem v) = 1 then Some (Scalar (s X))
      else if mf_qdim (variable_fem v) = 2 then Some (Vector2 (w X))
      else None)"

definition data_val :: "data_value \<Rightarrow> val option" where
  "data_val d =
     (case d of
        Vector [a] \<Rightarrow> Some (Scalar a)
      | Vector [a, b] \<Rightarrow> Some (Vector2 (a, b))
      | _ \<Rightarrow> None)"

text \<open>
  What a name stands for at the point \<open>X\<close>: the position, the size of the
  element, a variable of the model, a data of the model, or the test function
  of a variable of the model. Any other name has no value.
\<close>

definition name_value :: "model \<Rightarrow> gwfl_env \<Rightarrow> vec \<Rightarrow> string \<Rightarrow> val option" where
  "name_value mdl env X s =
     (if s = ''X'' then Some (Vector2 X)
      else if s = ''element_size'' then Some (Scalar (element_size env X))
      else case map_of (variables mdl) (Named s) of
        Some v \<Rightarrow> field_value v (unknown_scalar env s) (unknown_vector env s) X
      | None \<Rightarrow>
         (case map_of (initialized_data mdl) s of
            Some d \<Rightarrow> data_val d
          | None \<Rightarrow>
             (if take 5 s = ''Test_'' then
                (case map_of (variables mdl) (Named (drop 5 s)) of
                   Some v \<Rightarrow>
                     field_value v (test_scalar env (drop 5 s)) (test_vector env (drop 5 s)) X
                 | None \<Rightarrow> None)
              else None)))"

text \<open>
  The value of an expression at the point \<open>X\<close>; \<open>tr\<close> gives the point a
  transformation sends \<open>X\<close> to. \<^verbatim>\<open>Interpolate(e,T)\<close> is the value of \<open>e\<close> at the
  point the transformation \<open>T\<close> sends \<open>X\<close> to, \<^verbatim>\<open>neg_part(e)\<close> the negative part
  of a scalar, and \<^verbatim>\<open>v(i)\<close> a component of what the name \<open>v\<close> stands for. The
  division is that of the reals.
\<close>

primrec eval ::
  "model \<Rightarrow> (string \<Rightarrow> vec \<Rightarrow> vec option) \<Rightarrow> gwfl_env \<Rightarrow> gwfl \<Rightarrow> vec \<Rightarrow> val option" where
  "eval mdl tr env (Num k) X = Some (Scalar (real k))"
| "eval mdl tr env (Var s) X = name_value mdl env X s"
| "eval mdl tr env (Call1 f a) X =
     (if f = ''neg_part'' then
        (case eval mdl tr env a X of
           Some (Scalar t) \<Rightarrow> Some (Scalar (neg_part t))
         | _ \<Rightarrow> None)
      else
        (case a of
           Num i \<Rightarrow>
             (case name_value mdl env X f of None \<Rightarrow> None | Some v \<Rightarrow> component i v)
         | _ \<Rightarrow> None))"
| "eval mdl tr env (Call2 f a b) X =
     (if f = ''Interpolate'' then
        (case b of
           Var T \<Rightarrow> (case tr T X of None \<Rightarrow> None | Some Y \<Rightarrow> eval mdl tr env a Y)
         | _ \<Rightarrow> None)
      else None)"
| "eval mdl tr env (Vect2 a b) X =
     (case (eval mdl tr env a X, eval mdl tr env b X) of
        (Some (Scalar x), Some (Scalar y)) \<Rightarrow> Some (Vector2 (x, y))
      | _ \<Rightarrow> None)"
| "eval mdl tr env (Neg a) X = map_option neg_val (eval mdl tr env a X)"
| "eval mdl tr env (Add a b) X = lift2 add_val (eval mdl tr env a X) (eval mdl tr env b X)"
| "eval mdl tr env (Sub a b) X = lift2 sub_val (eval mdl tr env a X) (eval mdl tr env b X)"
| "eval mdl tr env (Mul a b) X = lift2 mul_val (eval mdl tr env a X) (eval mdl tr env b X)"
| "eval mdl tr env (Div a b) X = lift2 div_val (eval mdl tr env a X) (eval mdl tr env b X)"
| "eval mdl tr env (Dot a b) X = lift2 dot_val (eval mdl tr env a X) (eval mdl tr env b X)"

text \<open>
  The point a transformation of the model sends \<open>X\<close> to: the value at \<open>X\<close> of the
  expression it was declared with (line 231), which may read the data and the
  variables of the model (lines 236-238) but no other transformation.
\<close>

definition transformation_value :: "model \<Rightarrow> gwfl_env \<Rightarrow> string \<Rightarrow> vec \<Rightarrow> vec option" where
  "transformation_value mdl env T X =
     (case map_of (transformations mdl) T of
        None \<Rightarrow> None
      | Some (src, tgt, s) \<Rightarrow>
         (case parse s of
            None \<Rightarrow> None
          | Some e \<Rightarrow>
             (case eval mdl (\<lambda>T Y. None) env e X of
                Some (Vector2 Y) \<Rightarrow> Some Y
              | _ \<Rightarrow> None)))"

text \<open>The value at \<open>X\<close> of a term of the model given as a string.\<close>

definition integrand :: "model \<Rightarrow> gwfl_env \<Rightarrow> vec \<Rightarrow> string \<Rightarrow> val option" where
  "integrand mdl env X s =
     (case parse s of
        None \<Rightarrow> None
      | Some e \<Rightarrow> eval mdl (transformation_value mdl env) env e X)"

text \<open>
  The terms added to the model by \<^verbatim>\<open>add_nonlinear_term\<close>, in the order of the
  calls: the mesh and the region each is integrated on, and its value at \<open>X\<close>.
\<close>

fun nonlinear_term_of :: "brick \<Rightarrow> (mesh_im \<times> string \<times> nat) list" where
  "nonlinear_term_of (Nonlinear_term mim s r) = [(mim, s, r)]"
| "nonlinear_term_of _ = []"

definition nonlinear_terms :: "model \<Rightarrow> gwfl_env \<Rightarrow> vec \<Rightarrow> (mesh_id \<times> nat \<times> val option) list" where
  "nonlinear_terms mdl env X =
     map (\<lambda>(mim, s, r). (im_mesh mim, r, integrand mdl env X s))
       (concat (map nonlinear_term_of (bricks mdl)))"


subsection \<open>The contact residual as the specification words it\<close>

text \<open>
  The fields of the contact problem are those of the variables \<^verbatim>\<open>u1\<close>, \<^verbatim>\<open>u2\<close>
  and \<^verbatim>\<open>lambda1\<close> of the script.
\<close>

abbreviation u1 :: "gwfl_env \<Rightarrow> vec \<Rightarrow> vec" where
  "u1 env \<equiv> unknown_vector env ''u1''"

abbreviation u2 :: "gwfl_env \<Rightarrow> vec \<Rightarrow> vec" where
  "u2 env \<equiv> unknown_vector env ''u2''"

abbreviation lambda1 :: "gwfl_env \<Rightarrow> vec \<Rightarrow> real" where
  "lambda1 env \<equiv> unknown_scalar env ''lambda1''"

abbreviation Test_u1 :: "gwfl_env \<Rightarrow> vec \<Rightarrow> vec" where
  "Test_u1 env \<equiv> test_vector env ''u1''"

abbreviation Test_u2 :: "gwfl_env \<Rightarrow> vec \<Rightarrow> vec" where
  "Test_u2 env \<equiv> test_vector env ''u2''"

abbreviation Test_lambda1 :: "gwfl_env \<Rightarrow> vec \<Rightarrow> real" where
  "Test_lambda1 env \<equiv> test_scalar env ''lambda1''"

text \<open>
  The specification's gap and augmented multiplier, for a transform \<open>Pi\<close>, the
  normal \<open>n\<close>, the augmentation parameter \<open>g0\<close> and the element size \<open>hT\<close>.
\<close>

definition spec_gap :: "(vec \<Rightarrow> vec) \<Rightarrow> vec \<Rightarrow> gwfl_env \<Rightarrow> vec \<Rightarrow> real" where
  "spec_gap Pi n env X =
     dot (vsub (vadd X (u1 env X)) (vadd (Pi X) (u2 env (Pi X)))) n"

definition spec_lambda_aug ::
  "(vec \<Rightarrow> vec) \<Rightarrow> vec \<Rightarrow> real \<Rightarrow> gwfl_env \<Rightarrow> vec \<Rightarrow> real" where
  "spec_lambda_aug Pi n g0 env X =
     lambda1 env X + (1 / (g0 * element_size env X)) * spec_gap Pi n env X"

definition spec_multiplier_residual ::
  "(vec \<Rightarrow> vec) \<Rightarrow> vec \<Rightarrow> real \<Rightarrow> gwfl_env \<Rightarrow> vec \<Rightarrow> real" where
  "spec_multiplier_residual Pi n g0 env X =
     - (g0 * element_size env X)
     * (lambda1 env X + neg_part (spec_lambda_aug Pi n g0 env X))
     * Test_lambda1 env X"

text \<open>The reflection \<open>(x, y) \<mapsto> (x, - y)\<close> of the specification.\<close>

definition reflection :: "vec \<Rightarrow> vec" where
  "reflection X = (fst X, - snd X)"


section \<open>The vocabulary of the claims about meshes and unknowns\<close>

text \<open>
  A mesh as the library hands it out: the ids of its convexes are distinct and
  every vertex of a convex is a point of the mesh.
\<close>

definition valid_mesh :: "mesh \<Rightarrow> bool" where
  "valid_mesh m \<longleftrightarrow>
     distinct (map fst (convexes m))
     \<and> list_all (\<lambda>cv. list_all (\<lambda>q. q < nbpts m) (snd cv)) (convexes m)"

text \<open>The second coordinates of the vertices of a convex.\<close>

definition vertex_ys :: "mesh \<Rightarrow> nat \<times> nat list \<Rightarrow> real list" where
  "vertex_ys m cv = map (\<lambda>q. snd (pts m ! q)) (snd cv)"

text \<open>
  Modelled from the spec: the degrees of freedom of a variable of the model,
  which the library computes and the repository does not. A variable on a
  finite element method has all the degrees of freedom of the method; a
  filtered variable has only those lying on its region ("exists only on
  filtered DOFs belonging to the contact region", section 3 of the
  specification), and so has the multiplier of a condition on a region
  (section 4.2). The degrees of freedom of a method, and whether one lies on
  a region of a mesh, are the provider's and are arguments.
\<close>

definition variable_dofs ::
  "(mesh_fem \<Rightarrow> 'd list) \<Rightarrow> ('d \<Rightarrow> mesh_id \<Rightarrow> nat \<Rightarrow> bool) \<Rightarrow> variable \<Rightarrow> 'd list" where
  "variable_dofs basic_dof on_region v =
     (case v of
        Fem_variable mf \<Rightarrow> basic_dof mf
      | Filtered_fem_variable mf r \<Rightarrow>
          filter (\<lambda>d. on_region d (mf_mesh mf) r) (basic_dof mf)
      | Multiplier mf u r \<Rightarrow>
          filter (\<lambda>d. on_region d (mf_mesh mf) r) (basic_dof mf))"

definition is_elasticity :: "brick \<Rightarrow> bool" where
  "is_elasticity b =
     (case b of Isotropic_linearized_elasticity mim u l m \<Rightarrow> True | _ \<Rightarrow> False)"


section \<open>Properties of the model built by the script\<close>

lemmas fem_defs = mfu1_def mfu2_def mfd1_def mfd2_def mflambda_def mflambda_C_def
  mfvm1_def mfvm2_def mim1_def mim2_def MeshFem_def MeshIm_def set_classical_fem_def
  set_classical_discontinuous_fem_def

lemmas md_calls = add_fem_variable_def add_filtered_fem_variable_def
  add_initialized_data_def add_isotropic_linearized_elasticity_brick_def
  add_generalized_Dirichlet_condition_with_multipliers_def
  add_interpolate_transformation_from_expression_def add_nonlinear_term_def Model_real_def

lemma md_variables:
  "variables (md p) =
     [(Named ''u1'', Fem_variable (mfu1 p)), (Named ''u2'', Fem_variable (mfu2 p)),
      (Multiplier_of 2, Multiplier (mfu1 p) ''u1'' TOP_BOUND),
      (Multiplier_of 3, Multiplier (mfu1 p) ''u1'' LEFT_BOUND),
      (Multiplier_of 4, Multiplier (mfu2 p) ''u2'' LEFT_BOUND),
      (Multiplier_of 5, Multiplier (mfu2 p) ''u2'' BOTTOM_BOUND),
      (Named ''lambda1'', Filtered_fem_variable (mflambda_C p) CONTACT_BOUND)]"
  by (simp add: md_def md_calls)

lemma md_data:
  "initialized_data (md p) =
     [(''cmu'', Vector [cmu p]), (''clambdastar'', Vector [clambdastar p]),
      (''r0'', Vector [0, - (1 / 10)]), (''r1'', Vector [0, 0]),
      (''r2'', Vector [0, 0]), (''r3'', Vector [0, 0]),
      (''H0'', Matrix [[0, 0], [0, 1]]), (''H1'', Matrix [[1, 0], [0, 0]]),
      (''H2'', Matrix [[1, 0], [0, 0]]), (''H3'', Matrix [[0, 0], [0, 1]]),
      (''gamma0'', Vector [gamma0 p])]"
  by (simp add: md_def md_calls)

lemma md_elasticity:
  "filter is_elasticity (bricks (md p)) =
     [Isotropic_linearized_elasticity (mim1 p) ''u1'' ''clambdastar'' ''cmu'',
      Isotropic_linearized_elasticity (mim2 p) ''u2'' ''clambdastar'' ''cmu'']"
  by (simp add: md_def md_calls is_elasticity_def)

text \<open>
  C7. The coefficients are \<open>lambda = E nu / ((1 + nu) (1 - 2 nu))\<close> and
  \<open>mu = E / (2 (1 + nu))\<close>, and the plane stress coefficient is
  \<open>lambda* = 2 lambda mu / (lambda + 2 mu)\<close>. The data of the model hold
  \<open>lambda*\<close> and \<open>mu\<close> and not \<open>lambda\<close>; the two elasticity bricks, and the two
  Von Mises computations, are given \<open>lambda*\<close> and \<open>mu\<close>.
\<close>

theorem plane_stress_coefficients_used:
  "clambda p = E p * nu p / ((1 + nu p) * (1 - 2 * nu p))
   \<and> cmu p = E p / (2 * (1 + nu p))
   \<and> clambdastar p = 2 * clambda p * cmu p / (clambda p + 2 * cmu p)
   \<and> map_of (initialized_data (md p)) ''clambdastar'' = Some (Vector [clambdastar p])
   \<and> map_of (initialized_data (md p)) ''cmu'' = Some (Vector [cmu p])
   \<and> map_of (initialized_data (md p)) ''clambda'' = None
   \<and> filter is_elasticity (bricks (md p)) =
       [Isotropic_linearized_elasticity (mim1 p) ''u1'' ''clambdastar'' ''cmu'',
        Isotropic_linearized_elasticity (mim2 p) ''u2'' ''clambdastar'' ''cmu'']
   \<and> prog_post (hertz outer p imported) =
       [Isotropic_linearized_Von_Mises_or_Tresca ''u1'' ''clambdastar'' ''cmu'' (mfvm1 p),
        Isotropic_linearized_Von_Mises_or_Tresca ''u2'' ''clambdastar'' ''cmu'' (mfvm2 p)]"
  by (simp add: md_data md_elasticity clambda_def cmu_def clambdastar_def hertz_def
      VM1_def VM2_def)

theorem plane_stress_coefficients_used_witness:
  "clambda hertz_params = 1500000 / 13 \<and> cmu hertz_params = 1000000 / 13
   \<and> clambdastar hertz_params = 6000000 / 91
   \<and> map_of (initialized_data (md hertz_params)) ''clambdastar'' = Some (Vector [6000000 / 91])
   \<and> map_of (initialized_data (md hertz_params)) ''clambda'' = None"
proof -
  note t = plane_stress_coefficients_used [of hertz_params "\<lambda>m. []"
      "\<lparr>pts = [], convexes = [], regions = Map.empty\<rparr>"]
  from t have "clambda hertz_params
      = E hertz_params * nu hertz_params / ((1 + nu hertz_params) * (1 - 2 * nu hertz_params))"
    by blast
  then have l: "clambda hertz_params = 1500000 / 13" by (simp add: hertz_params_def)
  from t have "cmu hertz_params = E hertz_params / (2 * (1 + nu hertz_params))" by blast
  then have m: "cmu hertz_params = 1000000 / 13" by (simp add: hertz_params_def)
  from t have "clambdastar hertz_params
      = 2 * clambda hertz_params * cmu hertz_params / (clambda hertz_params + 2 * cmu hertz_params)"
    by blast
  then have s: "clambdastar hertz_params = 6000000 / 91" by (simp add: l m)
  from t have "map_of (initialized_data (md hertz_params)) ''clambdastar''
      = Some (Vector [clambdastar hertz_params])" by blast
  then have d: "map_of (initialized_data (md hertz_params)) ''clambdastar''
      = Some (Vector [6000000 / 91])" by (simp only: s)
  from t have n: "map_of (initialized_data (md hertz_params)) ''clambda'' = None" by blast
  show ?thesis using l m s d n by blast
qed

text \<open>
  C8. The unknowns of the model are the two displacements, the four
  multipliers of the conditions prescribed on the top and left regions of the
  wheel and on the left and bottom regions of the foundation, and the contact
  multiplier \<open>lambda1\<close>. The contact multiplier is the one filtered variable: it
  is on a scalar finite element method of the wheel of degree
  \<open>elements_degree - 1\<close>, restricted to the contact region of the wheel, and
  every one of its degrees of freedom lies on that region; the displacements
  have degree \<open>elements_degree\<close>.
\<close>

theorem multiplier_is_filtered_on_contact:
  "variables (md p) =
     [(Named ''u1'', Fem_variable (mfu1 p)), (Named ''u2'', Fem_variable (mfu2 p)),
      (Multiplier_of 2, Multiplier (mfu1 p) ''u1'' TOP_BOUND),
      (Multiplier_of 3, Multiplier (mfu1 p) ''u1'' LEFT_BOUND),
      (Multiplier_of 4, Multiplier (mfu2 p) ''u2'' LEFT_BOUND),
      (Multiplier_of 5, Multiplier (mfu2 p) ''u2'' BOTTOM_BOUND),
      (Named ''lambda1'', Filtered_fem_variable (mflambda_C p) CONTACT_BOUND)]
   \<and> mf_mesh (mflambda_C p) = Mesh1 \<and> mf_qdim (mflambda_C p) = 1
   \<and> mf_fem (mflambda_C p) = Classical_fem (elements_degree p - 1)
   \<and> mf_fem (mfu1 p) = Classical_fem (elements_degree p)
   \<and> mf_fem (mfu2 p) = Classical_fem (elements_degree p)
   \<and> (\<forall>d \<in> set (variable_dofs basic_dof on_region
                  (Filtered_fem_variable (mflambda_C p) CONTACT_BOUND)).
        d \<in> set (basic_dof (mflambda_C p)) \<and> on_region d Mesh1 CONTACT_BOUND)
   \<and> regions (wheel outer imported) CONTACT_BOUND = Some (fb2 (outer (mesh1 imported)))"
  by (simp add: md_variables fem_defs variable_dofs_def wheel_def set_region_def Let_def
      CONTACT_BOUND_def TOP_BOUND_def LEFT_BOUND_def)

theorem multiplier_is_filtered_on_contact_witness:
  "variable_dofs (\<lambda>mf. [0, 1, 2 :: nat]) (\<lambda>d m r. m = Mesh1 \<and> r = 2 \<and> d = 1)
     (Filtered_fem_variable (mflambda_C hertz_params) CONTACT_BOUND) = [1]
   \<and> mf_fem (mflambda_C hertz_params) = Classical_fem 1
   \<and> mf_fem (mfu1 hertz_params) = Classical_fem 2
   \<and> mf_fem (mfu2 hertz_params) = Classical_fem 2"
  using multiplier_is_filtered_on_contact [where p = hertz_params
      and basic_dof = "\<lambda>mf. [0, 1, 2 :: nat]"
      and on_region = "\<lambda>d m r. m = Mesh1 \<and> r = 2 \<and> d = 1" and outer = "\<lambda>m. []"
      and imported = "\<lparr>pts = [], convexes = [], regions = Map.empty\<rparr>"]
  by (simp add: hertz_params_def variable_dofs_def fem_defs CONTACT_BOUND_def)

text \<open>
  C9. Two runs that differ only in \<open>applied_force\<close> hand the same meshes,
  regions, model, solve options and stress computations to the library, so
  whatever the library computes from them is the same.
\<close>

theorem applied_force_is_unused:
  "hertz outer (p\<lparr>applied_force := a\<rparr>) imported = hertz outer (p\<lparr>applied_force := b\<rparr>) imported
   \<and> library (hertz outer (p\<lparr>applied_force := a\<rparr>) imported)
     = library (hertz outer (p\<lparr>applied_force := b\<rparr>) imported)"
  by (simp add: hertz_def md_def fem_defs VM1_def VM2_def cmu_def clambda_def
      clambdastar_def gamma0_def)

theorem applied_force_is_unused_witness:
  "hertz (\<lambda>m. []) (hertz_params\<lparr>applied_force := 0\<rparr>)
       \<lparr>pts = [(0, - 4), (1, - 6), (0, - 6)], convexes = [(0, [0, 1, 2])], regions = Map.empty\<rparr>
   = hertz (\<lambda>m. []) hertz_params
       \<lparr>pts = [(0, - 4), (1, - 6), (0, - 6)], convexes = [(0, [0, 1, 2])], regions = Map.empty\<rparr>"
  using applied_force_is_unused [where outer = "\<lambda>m. []" and p = hertz_params and a = 0
      and b = "applied_force hertz_params"
      and imported = "\<lparr>pts = [(0, - 4), (1, - 6), (0, - 6)], convexes = [(0, [0, 1, 2])],
        regions = Map.empty\<rparr>", THEN conjunct1]
  by simp


section \<open>Properties of the contact terms\<close>

lemma md_transformations:
  "transformations (md p) = [(''Proj1'', Mesh1, Mesh2, ''[X(1);-X(2)]'')]"
  by (simp add: md_def md_calls)

lemma md_nonlinear_terms:
  "concat (map nonlinear_term_of (bricks (md p))) =
     [(mim1 p, ''lambda1*(Test_u1.[0;1])-lambda1*(Interpolate(Test_u2,Proj1).[0;1])'',
       CONTACT_BOUND),
      (mim1 p, ''-(gamma0*element_size)*(lambda1 + neg_part(lambda1+(1/(gamma0*element_size))*((u1-Interpolate(u2,Proj1)+X-Interpolate(X,Proj1)).[0;1])))*Test_lambda1'',
       CONTACT_BOUND)]"
  by (simp add: md_def md_calls)

lemma parse_line_231:
  "parse ''[X(1);-X(2)]'' = Some (Vect2 (Call1 ''X'' (Num 1)) (Neg (Call1 ''X'' (Num 2))))"
  by code_simp

lemma parse_line_256:
  "parse ''lambda1*(Test_u1.[0;1])-lambda1*(Interpolate(Test_u2,Proj1).[0;1])'' =
     Some (Sub (Mul (Var ''lambda1'') (Dot (Var ''Test_u1'') (Vect2 (Num 0) (Num 1))))
             (Mul (Var ''lambda1'')
                (Dot (Call2 ''Interpolate'' (Var ''Test_u2'') (Var ''Proj1''))
                   (Vect2 (Num 0) (Num 1)))))"
  by code_simp

lemma parse_line_257:
  "parse ''-(gamma0*element_size)*(lambda1 + neg_part(lambda1+(1/(gamma0*element_size))*((u1-Interpolate(u2,Proj1)+X-Interpolate(X,Proj1)).[0;1])))*Test_lambda1'' =
     Some (Mul (Mul (Neg (Mul (Var ''gamma0'') (Var ''element_size'')))
                  (Add (Var ''lambda1'')
                     (Call1 ''neg_part''
                        (Add (Var ''lambda1'')
                           (Mul (Div (Num 1) (Mul (Var ''gamma0'') (Var ''element_size'')))
                              (Dot (Sub (Add (Sub (Var ''u1'')
                                                (Call2 ''Interpolate'' (Var ''u2'') (Var ''Proj1'')))
                                           (Var ''X''))
                                      (Call2 ''Interpolate'' (Var ''X'') (Var ''Proj1'')))
                                 (Vect2 (Num 0) (Num 1))))))))
             (Var ''Test_lambda1''))"
  by code_simp

lemma md_names:
  "name_value (md p) env X ''X'' = Some (Vector2 X)"
  "name_value (md p) env X ''element_size'' = Some (Scalar (element_size env X))"
  "name_value (md p) env X ''u1'' = Some (Vector2 (u1 env X))"
  "name_value (md p) env X ''u2'' = Some (Vector2 (u2 env X))"
  "name_value (md p) env X ''lambda1'' = Some (Scalar (lambda1 env X))"
  "name_value (md p) env X ''gamma0'' = Some (Scalar (gamma0 p))"
  "name_value (md p) env X ''Test_u1'' = Some (Vector2 (Test_u1 env X))"
  "name_value (md p) env X ''Test_u2'' = Some (Vector2 (Test_u2 env X))"
  "name_value (md p) env X ''Test_lambda1'' = Some (Scalar (Test_lambda1 env X))"
  by (simp_all add: name_value_def md_variables md_data field_value_def variable_fem_def
      data_val_def fem_defs)

lemma md_Proj1: "transformation_value (md p) env ''Proj1'' X = Some (reflection X)"
  by (simp add: transformation_value_def md_transformations parse_line_231 md_names
      component_def reflection_def)

lemma gap_rearranged:
  "dot (vsub (vadd (vsub a b) X) Y) n = dot (vsub (vadd X a) (vadd Y b)) n"
  by (simp add: dot_def vsub_def vadd_def algebra_simps)

lemma integrand_line_256:
  "integrand (md p) env X
     ''lambda1*(Test_u1.[0;1])-lambda1*(Interpolate(Test_u2,Proj1).[0;1])'' =
   Some (Scalar (lambda1 env X * dot (Test_u1 env X) (0, 1)
      - lambda1 env X * dot (Test_u2 env (reflection X)) (0, 1)))"
  by (simp add: integrand_def parse_line_256 md_names md_Proj1 lift2_def)

lemma integrand_line_257:
  "integrand (md p) env X
     ''-(gamma0*element_size)*(lambda1 + neg_part(lambda1+(1/(gamma0*element_size))*((u1-Interpolate(u2,Proj1)+X-Interpolate(X,Proj1)).[0;1])))*Test_lambda1'' =
   Some (Scalar (- (gamma0 p * element_size env X)
     * (lambda1 env X
        + neg_part (lambda1 env X
            + (1 / (gamma0 p * element_size env X))
              * dot (vsub (vadd (vsub (u1 env X) (u2 env (reflection X))) X) (reflection X))
                    (0, 1)))
     * Test_lambda1 env X))"
  by (simp add: integrand_def parse_line_257 md_names md_Proj1 lift2_def)

text \<open>
  C1. The second term the script adds to the model is integrated on the
  contact region of the wheel, and at every point \<open>X\<close> its value is
  \<open>- (gamma0 * h_T) * (lambda + neg_part lambda_aug) * Test_lambda\<close>, where
  \<open>lambda_aug = lambda + (1 / (gamma0 * h_T)) * g\<close> and the gap is
  \<open>g = ((X + u1 X) - (Pi X + u2 (Pi X))) . n\<close> with \<open>n = (0, 1)\<close>, \<open>Pi\<close> the
  reflection and \<open>gamma0\<close> the data of that name.
\<close>

theorem multiplier_residual_matches_spec:
  "length (nonlinear_terms (md p) env X) = 2
   \<and> nonlinear_terms (md p) env X ! 1 =
       (Mesh1, CONTACT_BOUND,
        Some (Scalar (spec_multiplier_residual reflection (0, 1) (gamma0 p) env X)))"
  by (simp add: nonlinear_terms_def md_nonlinear_terms integrand_line_257
      spec_multiplier_residual_def spec_lambda_aug_def spec_gap_def gap_rearranged fem_defs)

theorem multiplier_residual_matches_spec_witness:
  "nonlinear_terms (md hertz_params)
     \<lparr>unknown_scalar = \<lambda>s X. 3,
      unknown_vector = \<lambda>s X. (if s = ''u1'' then (0, - 1) else (0, 0)),
      test_scalar = \<lambda>s X. 1, test_vector = \<lambda>s X. (0, 0), element_size = \<lambda>X. 1 / 2\<rparr>
     (0, 1 / 4) ! 1
   = (Mesh1, CONTACT_BOUND, Some (Scalar (- (1 / 2))))"
  using multiplier_residual_matches_spec [where p = hertz_params and X = "(0, 1 / 4)"
      and env = "\<lparr>unknown_scalar = \<lambda>s X. 3,
        unknown_vector = \<lambda>s X. (if s = ''u1'' then (0, - 1) else (0, 0)),
        test_scalar = \<lambda>s X. 1, test_vector = \<lambda>s X. (0, 0), element_size = \<lambda>X. 1 / 2\<rparr>"]
  by (simp add: spec_multiplier_residual_def spec_lambda_aug_def spec_gap_def reflection_def
      gamma0_def hertz_params_def neg_part_def dot_def vsub_def vadd_def)

text \<open>
  C2. The first term the script adds to the model is integrated on the contact
  region of the wheel, and at every point \<open>X\<close> its value is the sum of
  \<open>lambda X * (Test_u1 X . n)\<close> and \<open>- lambda X * (Test_u2 (Pi X) . n)\<close> with
  \<open>n = (0, 1)\<close> and \<open>Pi\<close> the reflection: the first is what remains when the
  test function of the foundation vanishes, the second when the test function
  of the wheel vanishes.
\<close>

theorem displacement_residual_contributions:
  "length (nonlinear_terms (md p) env X) = 2
   \<and> nonlinear_terms (md p) env X ! 0 =
       (Mesh1, CONTACT_BOUND,
        Some (Scalar (lambda1 env X * dot (Test_u1 env X) (0, 1)
           + (- lambda1 env X * dot (Test_u2 env (reflection X)) (0, 1)))))
   \<and> nonlinear_terms (md p) (env\<lparr>test_vector := (test_vector env)(''u2'' := \<lambda>Y. (0, 0))\<rparr>) X ! 0 =
       (Mesh1, CONTACT_BOUND, Some (Scalar (lambda1 env X * dot (Test_u1 env X) (0, 1))))
   \<and> nonlinear_terms (md p) (env\<lparr>test_vector := (test_vector env)(''u1'' := \<lambda>Y. (0, 0))\<rparr>) X ! 0 =
       (Mesh1, CONTACT_BOUND,
        Some (Scalar (- lambda1 env X * dot (Test_u2 env (reflection X)) (0, 1))))"
  by (simp add: nonlinear_terms_def md_nonlinear_terms integrand_line_256 dot_def fem_defs)

theorem displacement_residual_contributions_witness:
  "nonlinear_terms (md hertz_params)
     \<lparr>unknown_scalar = \<lambda>s X. 3, unknown_vector = \<lambda>s X. (0, - 1),
      test_scalar = \<lambda>s X. 1, test_vector = \<lambda>s X. (if s = ''u1'' then (5, 7) else (0, snd X)),
      element_size = \<lambda>X. 1 / 2\<rparr>
     (0, 1 / 4) ! 0
   = (Mesh1, CONTACT_BOUND, Some (Scalar (87 / 4)))"
  using displacement_residual_contributions [where p = hertz_params and X = "(0, 1 / 4)"
      and env = "\<lparr>unknown_scalar = \<lambda>s X. 3, unknown_vector = \<lambda>s X. (0, - 1),
        test_scalar = \<lambda>s X. 1,
        test_vector = \<lambda>s X. (if s = ''u1'' then (5, 7) else (0, snd X)),
        element_size = \<lambda>X. 1 / 2\<rparr>"]
  by (simp add: reflection_def dot_def)

text \<open>
  C3. The model has one transformation, \<^verbatim>\<open>Proj1\<close>, from the wheel to the
  foundation. It pairs the point \<open>(x, y)\<close> of the wheel with the point
  \<open>(x, - y)\<close>, whatever the values of the unknowns: it is the same map at every
  Newton iterate.
\<close>

theorem Proj1_fixed_reflection:
  "map (\<lambda>(name, src, tgt, s). (name, src, tgt)) (transformations (md p))
     = [(''Proj1'', Mesh1, Mesh2)]
   \<and> transformation_value (md p) env ''Proj1'' (x, y) = Some (x, - y)
   \<and> transformation_value (md p) env' ''Proj1'' (x, y)
     = transformation_value (md p) env ''Proj1'' (x, y)"
  by (simp add: md_transformations md_Proj1 reflection_def)

theorem Proj1_fixed_reflection_witness:
  "transformation_value (md hertz_params)
     \<lparr>unknown_scalar = \<lambda>s X. 3, unknown_vector = \<lambda>s X. (0, - 1),
      test_scalar = \<lambda>s X. 1, test_vector = \<lambda>s X. (0, 0), element_size = \<lambda>X. 1 / 2\<rparr>
     ''Proj1'' (3, 4) = Some (3, - 4)"
  using Proj1_fixed_reflection [where p = hertz_params and x = 3 and y = 4
      and env = "\<lparr>unknown_scalar = \<lambda>s X. 3, unknown_vector = \<lambda>s X. (0, - 1),
        test_scalar = \<lambda>s X. 1, test_vector = \<lambda>s X. (0, 0), element_size = \<lambda>X. 1 / 2\<rparr>"]
  by simp


section \<open>Properties of the mesh splitting\<close>

lemma compress_upt:
  "set (compress (map Q ys) [0 ..< length ys]) = {i. i < length ys \<and> Q (ys ! i)}"
proof -
  have "zip (map Q ys) [0 ..< length ys] = map (\<lambda>i. (Q (ys ! i), i)) [0 ..< length ys]"
    by (rule nth_equalityI) simp_all
  then have "compress (map Q ys) [0 ..< length ys] = filter (\<lambda>i. Q (ys ! i)) [0 ..< length ys]"
    by (simp add: compress_def filter_map comp_def)
  then show ?thesis by simp
qed

lemma pid_set:
  "set (compress (map Q (row1 (pts m))) [0 ..< nbpts m])
     = {i. i < nbpts m \<and> Q (snd (pts m ! i))}"
proof -
  have "nbpts m = length (row1 (pts m))" by (simp add: row1_def nbpts_def)
  moreover have "\<And>i. i < nbpts m \<Longrightarrow> row1 (pts m) ! i = snd (pts m ! i)"
    by (simp add: row1_def nbpts_def)
  ultimately show ?thesis using compress_upt [of Q "row1 (pts m)"] by auto
qed

lemma distinct_fst_eq:
  assumes "distinct (map fst xs)" "a \<in> set xs" "b \<in> set xs" "fst a = fst b"
  shows "a = b"
proof -
  obtain k v where a: "a = (k, v)" by (cases a)
  obtain k' w where b: "b = (k', w)" by (cases b)
  from assms(4) a b have k: "k' = k" by simp
  from assms(1) assms(2) [unfolded a] assms(3) [unfolded b k] have "v = w"
    by (rule eq_key_imp_eq_value)
  with a b k show ?thesis by simp
qed

lemma cvid_from_pid_mem:
  assumes d: "distinct (map fst (convexes m))" and cv: "cv \<in> set (convexes m)"
  shows "fst cv \<in> set (cvid_from_pid m pids) \<longleftrightarrow> list_all (\<lambda>q. q \<in> set pids) (snd cv)"
proof
  assume "fst cv \<in> set (cvid_from_pid m pids)"
  then obtain cv' where c': "cv' \<in> set (convexes m)" "fst cv' = fst cv"
    "list_all (\<lambda>q. q \<in> set pids) (snd cv')"
    by (auto simp: cvid_from_pid_def)
  from distinct_fst_eq [OF d c'(1) cv c'(2)] c'(3)
  show "list_all (\<lambda>q. q \<in> set pids) (snd cv)" by simp
next
  assume "list_all (\<lambda>q. q \<in> set pids) (snd cv)"
  with cv show "fst cv \<in> set (cvid_from_pid m pids)"
    by (force simp: cvid_from_pid_def)
qed

lemma valid_translate: "valid_mesh (translate v m) = valid_mesh m"
  by (simp add: valid_mesh_def translate_def nbpts_def)

lemma all_vertices_pid:
  assumes "valid_mesh m" "cv \<in> set (convexes m)"
  shows "list_all (\<lambda>q. q \<in> {i. i < nbpts m \<and> Q (snd (pts m ! i))}) (snd cv)
         \<longleftrightarrow> list_all Q (vertex_ys m cv)"
proof -
  from assms have "\<forall>q \<in> set (snd cv). q < nbpts m"
    by (simp add: valid_mesh_def list_all_iff)
  then show ?thesis by (auto simp: vertex_ys_def list_all_iff)
qed

lemma deleted_cvid2:
  assumes "valid_mesh m" "cv \<in> set (convexes m)"
  shows "fst cv \<in> set (cvid2 m) \<longleftrightarrow> list_all (\<lambda>y. y \<le> 0) (vertex_ys m cv)"
proof -
  from assms have d: "distinct (map fst (convexes m))" by (simp add: valid_mesh_def)
  show ?thesis
    unfolding cvid2_def Let_def cvid_from_pid_mem [OF d assms(2)] pid_set
    by (rule all_vertices_pid [OF assms])
qed

lemma deleted_cvid1:
  assumes "valid_mesh m" "cv \<in> set (convexes m)"
  shows "fst cv \<in> set (cvid1 m) \<longleftrightarrow> list_all (\<lambda>y. y \<ge> 0) (vertex_ys m cv)"
proof -
  from assms have d: "distinct (map fst (convexes m))" by (simp add: valid_mesh_def)
  show ?thesis
    unfolding cvid1_def Let_def cvid_from_pid_mem [OF d assms(2)] pid_set
    by (rule all_vertices_pid [OF assms])
qed

lemma convexes_translate: "convexes (translate v m) = convexes m"
  by (simp add: translate_def)

lemma mesh1_convexes:
  assumes "valid_mesh imported"
  shows "convexes (mesh1 imported) =
           filter (\<lambda>cv. \<not> list_all (\<lambda>y. y \<le> 0) (vertex_ys (translate (0, 5) imported) cv))
                  (convexes imported)"
proof -
  let ?m = "translate (0, 5) imported"
  have v: "valid_mesh ?m" using assms by (simp add: valid_translate)
  have "convexes (mesh1 imported) = filter (\<lambda>cv. fst cv \<notin> set (cvid2 ?m)) (convexes ?m)"
    by (simp add: mesh1_def Let_def del_convex_def clone_def)
  also have "\<dots> = filter (\<lambda>cv. \<not> list_all (\<lambda>y. y \<le> 0) (vertex_ys ?m cv)) (convexes ?m)"
    by (rule filter_cong) (simp_all add: deleted_cvid2 [OF v])
  finally show ?thesis by (simp add: convexes_translate)
qed

lemma mesh2_convexes:
  assumes "valid_mesh imported"
  shows "convexes (mesh2 imported) =
           filter (\<lambda>cv. \<not> list_all (\<lambda>y. y \<ge> 0) (vertex_ys (translate (0, 5) imported) cv))
                  (convexes imported)"
proof -
  let ?m = "translate (0, 5) imported"
  have v: "valid_mesh ?m" using assms by (simp add: valid_translate)
  have "convexes (mesh2 imported) = filter (\<lambda>cv. fst cv \<notin> set (cvid1 ?m)) (convexes ?m)"
    by (simp add: mesh2_def Let_def del_convex_def clone_def)
  also have "\<dots> = filter (\<lambda>cv. \<not> list_all (\<lambda>y. y \<ge> 0) (vertex_ys ?m cv)) (convexes ?m)"
    by (rule filter_cong) (simp_all add: deleted_cvid1 [OF v])
  finally show ?thesis by (simp add: convexes_translate)
qed

text \<open>
  C10. After the translation by \<open>(0, 5)\<close>, the wheel keeps exactly the convexes
  that have a vertex with \<open>y > 0\<close> (those with all vertices at \<open>y \<le> 0\<close> are
  deleted), and the foundation exactly those that have a vertex with \<open>y < 0\<close>.
  So a convex with vertices strictly on both sides of \<open>y = 0\<close> is in both
  meshes, and a convex with all its vertices on \<open>y = 0\<close> is in neither.
\<close>

theorem mesh_split_by_vertex_sign:
  assumes "valid_mesh imported"
  shows "convexes (mesh1 imported) =
           filter (\<lambda>cv. \<not> list_all (\<lambda>y. y \<le> 0) (vertex_ys (translate (0, 5) imported) cv))
                  (convexes imported)
       \<and> convexes (mesh2 imported) =
           filter (\<lambda>cv. \<not> list_all (\<lambda>y. y \<ge> 0) (vertex_ys (translate (0, 5) imported) cv))
                  (convexes imported)
       \<and> pts (mesh1 imported) = map (\<lambda>q. vadd q (0, 5)) (pts imported)
       \<and> pts (mesh2 imported) = map (\<lambda>q. vadd q (0, 5)) (pts imported)
       \<and> (\<forall>cv \<in> set (convexes imported).
            list_ex (\<lambda>y. y > 0) (vertex_ys (translate (0, 5) imported) cv)
            \<and> list_ex (\<lambda>y. y < 0) (vertex_ys (translate (0, 5) imported) cv)
            \<longrightarrow> cv \<in> set (convexes (mesh1 imported)) \<and> cv \<in> set (convexes (mesh2 imported)))
       \<and> (\<forall>cv \<in> set (convexes imported).
            list_all (\<lambda>y. y = 0) (vertex_ys (translate (0, 5) imported) cv)
            \<longrightarrow> cv \<notin> set (convexes (mesh1 imported)) \<and> cv \<notin> set (convexes (mesh2 imported)))"
proof -
  have pts: "pts (mesh1 imported) = map (\<lambda>q. vadd q (0, 5)) (pts imported)"
    "pts (mesh2 imported) = map (\<lambda>q. vadd q (0, 5)) (pts imported)"
    by (simp_all add: mesh1_def mesh2_def Let_def del_convex_def clone_def translate_def)
  have both: "\<forall>cv \<in> set (convexes imported).
            list_ex (\<lambda>y. y > 0) (vertex_ys (translate (0, 5) imported) cv)
            \<and> list_ex (\<lambda>y. y < 0) (vertex_ys (translate (0, 5) imported) cv)
            \<longrightarrow> cv \<in> set (convexes (mesh1 imported)) \<and> cv \<in> set (convexes (mesh2 imported))"
  proof (intro ballI impI)
    fix cv
    assume cv: "cv \<in> set (convexes imported)"
      and ex: "list_ex (\<lambda>y. y > 0) (vertex_ys (translate (0, 5) imported) cv)
            \<and> list_ex (\<lambda>y. y < 0) (vertex_ys (translate (0, 5) imported) cv)"
    from ex obtain y z where "y \<in> set (vertex_ys (translate (0, 5) imported) cv)" "y > 0"
      "z \<in> set (vertex_ys (translate (0, 5) imported) cv)" "z < 0"
      by (auto simp: list_ex_iff)
    then have "\<not> list_all (\<lambda>y. y \<le> 0) (vertex_ys (translate (0, 5) imported) cv)"
      "\<not> list_all (\<lambda>y. y \<ge> 0) (vertex_ys (translate (0, 5) imported) cv)"
      by (auto simp: list_all_iff not_le)
    with cv show "cv \<in> set (convexes (mesh1 imported)) \<and> cv \<in> set (convexes (mesh2 imported))"
      by (simp add: mesh1_convexes [OF assms] mesh2_convexes [OF assms])
  qed
  have neither: "\<forall>cv \<in> set (convexes imported).
            list_all (\<lambda>y. y = 0) (vertex_ys (translate (0, 5) imported) cv)
            \<longrightarrow> cv \<notin> set (convexes (mesh1 imported)) \<and> cv \<notin> set (convexes (mesh2 imported))"
  proof (intro ballI impI)
    fix cv
    assume "list_all (\<lambda>y. y = 0) (vertex_ys (translate (0, 5) imported) cv)"
    then have "list_all (\<lambda>y. y \<le> 0) (vertex_ys (translate (0, 5) imported) cv)"
      "list_all (\<lambda>y. y \<ge> 0) (vertex_ys (translate (0, 5) imported) cv)"
      by (auto simp: list_all_iff)
    then show "cv \<notin> set (convexes (mesh1 imported)) \<and> cv \<notin> set (convexes (mesh2 imported))"
      by (simp add: mesh1_convexes [OF assms] mesh2_convexes [OF assms])
  qed
  show ?thesis
    by (intro conjI mesh1_convexes [OF assms] mesh2_convexes [OF assms] pts both neither)
qed

theorem mesh_split_by_vertex_sign_witness:
  "valid_mesh \<lparr>pts = [(0, - 4), (1, - 4), (0, - 6), (1, - 6), (0, - 5), (1, - 5)],
      convexes = [(0, [0, 1, 4]), (1, [2, 3, 5]), (2, [0, 2, 3]), (3, [4, 5])],
      regions = Map.empty\<rparr>
   \<and> convexes (mesh1 \<lparr>pts = [(0, - 4), (1, - 4), (0, - 6), (1, - 6), (0, - 5), (1, - 5)],
      convexes = [(0, [0, 1, 4]), (1, [2, 3, 5]), (2, [0, 2, 3]), (3, [4, 5])],
      regions = Map.empty\<rparr>) = [(0, [0, 1, 4]), (2, [0, 2, 3])]
   \<and> convexes (mesh2 \<lparr>pts = [(0, - 4), (1, - 4), (0, - 6), (1, - 6), (0, - 5), (1, - 5)],
      convexes = [(0, [0, 1, 4]), (1, [2, 3, 5]), (2, [0, 2, 3]), (3, [4, 5])],
      regions = Map.empty\<rparr>) = [(1, [2, 3, 5]), (2, [0, 2, 3])]"
proof -
  let ?m = "\<lparr>pts = [(0, - 4), (1, - 4), (0, - 6), (1, - 6), (0, - 5), (1, - 5)],
      convexes = [(0, [0, 1, 4]), (1, [2, 3, 5]), (2, [0, 2, 3]), (3, [4, 5 :: nat])],
      regions = (Map.empty :: nat \<rightharpoonup> face list)\<rparr>"
  have v: "valid_mesh ?m" by (simp add: valid_mesh_def nbpts_def)
  from mesh_split_by_vertex_sign [OF v]
  have "convexes (mesh1 ?m) =
           filter (\<lambda>cv. \<not> list_all (\<lambda>y. y \<le> 0) (vertex_ys (translate (0, 5) ?m) cv))
                  (convexes ?m)"
    and "convexes (mesh2 ?m) =
           filter (\<lambda>cv. \<not> list_all (\<lambda>y. y \<ge> 0) (vertex_ys (translate (0, 5) ?m) cv))
                  (convexes ?m)"
    by blast+
  then have "convexes (mesh1 ?m) = [(0, [0, 1, 4]), (2, [0, 2, 3])]"
    and "convexes (mesh2 ?m) = [(1, [2, 3, 5]), (2, [0, 2, 3])]"
    by (simp_all add: vertex_ys_def translate_def vadd_def)
  with v show ?thesis by blast
qed


section \<open>Properties of the boundary selection\<close>







text \<open>
  C5. A boundary face is selected if and only if the angle between its outward
  normal and the given direction is at most the tolerance; a face whose angle
  equals the tolerance is selected; a face at angle \<open>pi / 2\<close> is selected with
  tolerance \<open>pi / 2\<close> and with no smaller tolerance.
\<close>

theorem classifier_closed_interval:
  "(f \<in> set (outer_faces_with_direction faces v tol)
      \<longleftrightarrow> f \<in> set faces \<and> angle_between (normal f) v \<le> tol)
   \<and> (f \<in> set faces \<and> angle_between (normal f) v = tol
        \<longrightarrow> f \<in> set (outer_faces_with_direction faces v tol))
   \<and> (f \<in> set faces \<and> angle_between (normal f) v = pi / 2
        \<longrightarrow> f \<in> set (outer_faces_with_direction faces v (pi / 2))
            \<and> (\<forall>t < pi / 2. f \<notin> set (outer_faces_with_direction faces v t)))"
  by (auto simp: outer_faces_with_direction_def)

theorem classifier_closed_interval_witness:
  "angle_between (1, 0) (0, - 1) = pi / 2
   \<and> \<lparr>face_cv = 0, face_f = 1, normal = (1, 0)\<rparr>
       \<in> set (outer_faces_with_direction [\<lparr>face_cv = 0, face_f = 1, normal = (1, 0)\<rparr>]
                (0, - 1) (pi / 2))
   \<and> \<lparr>face_cv = 0, face_f = 1, normal = (1, 0)\<rparr>
       \<notin> set (outer_faces_with_direction [\<lparr>face_cv = 0, face_f = 1, normal = (1, 0)\<rparr>]
                (0, - 1) (1 / 2))"
proof -
  have a: "angle_between (1, 0) (0, - 1) = pi / 2"
    by (simp add: angle_between_def dot_def)
  have lt: "(1::real) / 2 < pi / 2" using pi_ge_two by simp
  note t = classifier_closed_interval [where f = "\<lparr>face_cv = 0, face_f = 1, normal = (1, 0)\<rparr>"
      and faces = "[\<lparr>face_cv = 0, face_f = 1, normal = (1, 0)\<rparr>]" and v = "(0, - 1)"
      and tol = "pi / 2"]
  from t a lt show ?thesis by simp
qed

subsection \<open>Bounds on the sine and the cosine\<close>

































end
